theory Spec2Isabelle
  imports Main "HOL-Library.Word"
begin

unbundle bit_operations_syntax

section \<open>The C syntax tree consumed by c\_types.py\<close>

text \<open>
  The nodes are those of pycparser's \<open>c_ast\<close> that the module inspects. Only the
  attributes the module reads are kept. Expressions other than constants and binary
  operations are opaque (\<open>OtherExpr\<close>); they carry no type nodes.
\<close>

datatype expr =
    ca_Constant string
  | ca_BinaryOp string expr expr
  | OtherExpr

text \<open>
  \<open>ctype\<close> is the union \<open>Type = PtrDecl | ArrayDecl | TypeDecl | FuncDecl\<close> of the source;
  \<open>inner\<close> is what a \<open>TypeDecl\<close> wraps; \<open>su\<close> is \<open>StructUnion\<close>, whose first field
  stands for the identity \<open>id(struct)\<close> of the node; \<open>node\<close> collects the nodes met in the
  lists \<open>struct.decls\<close>, \<open>fn.args.params\<close> and \<open>ast.ext\<close>. The \<open>type\<close> attribute of a
  \<open>Decl\<close> is either a \<open>Type\<close> or a bare struct, union or enum specifier.
\<close>

datatype ctype =
    PtrDecl ctype
  | ArrayDecl ctype "expr option"
  | TypeDecl "string option" inner
  | FuncDecl "node list option" ctype
and inner =
    IdentifierType "string list"
  | ca_Enum "string option"
  | StructUnion su
and su =
    ca_Struct nat "string option" "node list option"
  | ca_Union nat "string option" "node list option"
and decl_type =
    Ty ctype
  | Bare inner
and node =
    ca_Decl "string option" decl_type "expr option"
  | ca_Typename ctype
  | ca_EllipsisParam
  | ca_ID string
  | ca_Typedef string ctype
  | ca_FuncDef "string option" decl_type
  | OtherNode

fun su_id :: "su \<Rightarrow> nat" where
  "su_id (ca_Struct i n ds) = i"
| "su_id (ca_Union i n ds) = i"

fun su_name :: "su \<Rightarrow> string option" where
  "su_name (ca_Struct i n ds) = n"
| "su_name (ca_Union i n ds) = n"

fun su_decls :: "su \<Rightarrow> node list option" where
  "su_decls (ca_Struct i n ds) = ds"
| "su_decls (ca_Union i n ds) = ds"

fun is_union :: "su \<Rightarrow> bool" where
  "is_union (ca_Struct i n ds) = False"
| "is_union (ca_Union i n ds) = True"

section \<open>Errors\<close>

text \<open>
  \<open>DecompFailure\<close> carries the cause instead of the rendered message (the messages embed
  the output of pycparser's C generator). The other constructors are the Python exceptions
  that escape the module uncaught.
\<close>

datatype failure =
    BadIntLiteral expr
  | NotConstant expr
  | KnRHeader
  | UndefinedStruct "string option"
  | ArrayWithoutSize string
  | BitfieldNotPrimitive string
  | BitfieldTooWide string

datatype error =
    DecompFailure failure
  | AssertionError
  | AttributeError
  | ValueError
  | ZeroDivisionError

section \<open>Constant evaluator\<close>

subsection \<open>Python's \<open>str.rstrip\<close> and \<open>int(s, 0)\<close>\<close>

definition rstrip :: "string \<Rightarrow> string \<Rightarrow> string" where
  "rstrip chars s = rev (dropWhile (\<lambda>c. c \<in> set chars) (rev s))"

definition py_isspace :: "char \<Rightarrow> bool" where
  "py_isspace c = (of_char c \<in> {9, 10, 11, 12, 13, 32 :: nat})"

definition digit_value :: "char \<Rightarrow> nat" where
  "digit_value c =
     (let n = of_char c :: nat in
      if 48 \<le> n \<and> n \<le> 57 then n - 48
      else if 97 \<le> n \<and> n \<le> 122 then n - 87
      else if 65 \<le> n \<and> n \<le> 90 then n - 55
      else 37)"

text \<open>
  The digit scan of \<open>PyLong_FromString\<close>: digits below the base, single underscores
  between them. The result is the value, the number of digits and the unread rest; \<open>None\<close>
  is the error exit (a doubled or a trailing underscore).
\<close>

fun scan_digits :: "nat \<Rightarrow> bool \<Rightarrow> int \<Rightarrow> nat \<Rightarrow> string \<Rightarrow> (int \<times> nat \<times> string) option" where
  "scan_digits base prev_us acc cnt [] = (if prev_us then None else Some (acc, cnt, []))"
| "scan_digits base prev_us acc cnt (c # cs) =
     (if c = CHR ''_'' then
        (if prev_us then None else scan_digits base True acc cnt cs)
      else if digit_value c < base then
        scan_digits base False (acc * int base + int (digit_value c)) (Suc cnt) cs
      else if prev_us then None else Some (acc, cnt, c # cs))"

text \<open>
  \<open>int(s, 0)\<close> on a \<open>str\<close>: surrounding whitespace, an optional sign, the base taken from
  the prefix (\<open>0x\<close>, \<open>0o\<close>, \<open>0b\<close>, else decimal), one underscore allowed after the prefix.
  A text that starts with \<open>0\<close> without such a prefix is read as decimal and refused
  unless its value is zero. \<open>None\<close> stands for \<open>ValueError\<close>. The interpreter's limit on
  the number of digits of very long decimal texts is outside the model.
\<close>

definition py_int_base0 :: "string \<Rightarrow> int option" where
  "py_int_base0 s =
     (let s1 = dropWhile py_isspace s;
          (sign, s2) = (case s1 of
                          c # r \<Rightarrow> if c = CHR ''+'' then (1, r)
                                   else if c = CHR ''-'' then (- 1, r)
                                   else (1 :: int, s1)
                        | [] \<Rightarrow> (1, s1));
          (base, error_if_nonzero, s3) =
             (case s2 of
                c0 # c1 # r \<Rightarrow>
                  if c0 \<noteq> CHR ''0'' then (10 :: nat, False, s2)
                  else if c1 = CHR ''x'' \<or> c1 = CHR ''X'' then (16, False, r)
                  else if c1 = CHR ''o'' \<or> c1 = CHR ''O'' then (8, False, r)
                  else if c1 = CHR ''b'' \<or> c1 = CHR ''B'' then (2, False, r)
                  else (10, True, s2)
              | [c0] \<Rightarrow> (10, c0 = CHR ''0'', s2)
              | [] \<Rightarrow> (10, False, s2));
          s4 = (case s3 of
                  c # r \<Rightarrow> if base \<noteq> 10 \<and> c = CHR ''_'' then r else s3
                | [] \<Rightarrow> s3)
      in case s4 of
           [] \<Rightarrow> None
         | c # r \<Rightarrow>
             if c = CHR ''_'' then None
             else (case scan_digits base False 0 0 s4 of
                     None \<Rightarrow> None
                   | Some (v, cnt, rest) \<Rightarrow>
                       if error_if_nonzero \<and> v \<noteq> 0 then None
                       else if cnt = 0 then None
                       else if dropWhile py_isspace rest \<noteq> [] then None
                       else Some (sign * v)))"

subsection \<open>\<open>parse_constant_int\<close>\<close>

text \<open>
  Python's \<open><<\<close> and \<open>>>\<close> raise \<open>ValueError\<close> on a negative shift count. A binary
  operation with another operator falls through to the final \<open>raise\<close>, after both
  operands have been evaluated.
\<close>

fun parse_constant_int :: "expr \<Rightarrow> error + int" where
  "parse_constant_int (ca_Constant v) =
     (case py_int_base0 (rstrip ''lLuU'' v) of
        Some i \<Rightarrow> Inr i
      | None \<Rightarrow> Inl (DecompFailure (BadIntLiteral (ca_Constant v))))"
| "parse_constant_int (ca_BinaryOp op l r) =
     (case parse_constant_int l of
        Inl e \<Rightarrow> Inl e
      | Inr lhs \<Rightarrow>
          (case parse_constant_int r of
             Inl e \<Rightarrow> Inl e
           | Inr rhs \<Rightarrow>
               if op = ''+'' then Inr (lhs + rhs)
               else if op = ''-'' then Inr (lhs - rhs)
               else if op = ''*'' then Inr (lhs * rhs)
               else if op = ''<<'' then
                 (if rhs < 0 then Inl ValueError else Inr (push_bit (nat rhs) lhs))
               else if op = ''>>'' then
                 (if rhs < 0 then Inl ValueError else Inr (drop_bit (nat rhs) lhs))
               else Inl (DecompFailure (NotConstant (ca_BinaryOp op l r)))))"
| "parse_constant_int OtherExpr = Inl (DecompFailure (NotConstant OtherExpr))"

section \<open>The type map\<close>

record StructField =
  ftype :: ctype
  fname :: string

text \<open>
  \<open>Struct.fields\<close> is a \<open>defaultdict(list)\<close>: an insertion-ordered dictionary from offsets
  to lists, kept here as an association list in insertion order.
\<close>

record Struct =
  struct_fields :: "(int \<times> StructField list) list"
  struct_size :: int
  struct_align :: int

record Param =
  ptype :: decl_type
  pname :: "string option"

record Function =
  ret_type :: "ctype option"
  params :: "Param list option"
  is_variadic :: bool

record TypeMap =
  typedefs :: "string \<rightharpoonup> ctype"
  var_types :: "string \<rightharpoonup> decl_type"
  "functions" :: "string \<rightharpoonup> Function"
  named_structs :: "string \<rightharpoonup> Struct"
  anon_structs :: "nat \<rightharpoonup> Struct"

definition empty_typemap :: TypeMap where
  "empty_typemap =
     \<lparr>typedefs = Map.empty, var_types = Map.empty, functions = Map.empty,
      named_structs = Map.empty, anon_structs = Map.empty\<rparr>"

section \<open>Type normalizer\<close>

definition basic_type :: "string list \<Rightarrow> ctype" where
  "basic_type names = TypeDecl None (IdentifierType names)"

definition pointer :: "ctype \<Rightarrow> ctype" where
  "pointer t = PtrDecl t"

text \<open>The condition of the \<open>while\<close> loop of \<open>resolve_typedefs\<close>, with the next type.\<close>

fun typedef_target :: "ctype \<Rightarrow> TypeMap \<Rightarrow> ctype option" where
  "typedef_target (TypeDecl dn (IdentifierType [n])) tm = typedefs tm n"
| "typedef_target t tm = None"

text \<open>
  The loop does not end on a cyclic chain of typedefs: \<open>None\<close> is "no result".
\<close>

partial_function (option) resolve_typedefs :: "ctype \<Rightarrow> TypeMap \<Rightarrow> ctype option" where
  [code]: "resolve_typedefs t tm =
     (case typedef_target t tm of
        Some t' \<Rightarrow> resolve_typedefs t' tm
      | None \<Rightarrow> Some t)"




fun is_void :: "decl_type \<Rightarrow> bool" where
  "is_void (Ty (TypeDecl dn (IdentifierType names))) = (names = [''void''])"
| "is_void t = False"

fun primitive_size :: "inner \<Rightarrow> error + int" where
  "primitive_size (ca_Enum n) = Inr 4"
| "primitive_size (IdentifierType names) =
     (if ''double'' \<in> set names then Inr 8
      else if ''float'' \<in> set names then Inr 4
      else if ''short'' \<in> set names then Inr 2
      else if ''char'' \<in> set names then Inr 1
      else if count_list names ''long'' = 2 then Inr 8
      else Inr 4)"
| "primitive_size (StructUnion s) = Inl AttributeError"

section \<open>Function-signature parser\<close>

text \<open>
  The loop over \<open>fn.args.params\<close>, with the three locals \<open>params\<close>, \<open>is_variadic\<close> and
  \<open>has_void\<close> as accumulators.
\<close>

fun parse_params :: "node list \<Rightarrow> Param list \<Rightarrow> bool \<Rightarrow> bool \<Rightarrow> error + (Param list \<times> bool \<times> bool)" where
  "parse_params [] ps variadic has_void = Inr (ps, variadic, has_void)"
| "parse_params (ca_EllipsisParam # as) ps variadic has_void =
     parse_params as ps True has_void"
| "parse_params (ca_Decl n t b # as) ps variadic has_void =
     parse_params as (ps @ [\<lparr>ptype = t, pname = n\<rparr>]) variadic has_void"
| "parse_params (ca_ID n # as) ps variadic has_void = Inl (DecompFailure KnRHeader)"
| "parse_params (ca_Typename t # as) ps variadic has_void =
     (if is_void (Ty t) then parse_params as ps variadic True
      else parse_params as (ps @ [\<lparr>ptype = Ty t, pname = None\<rparr>]) variadic has_void)"
| "parse_params (a # as) ps variadic has_void = Inl AssertionError"

text \<open>The argument is the \<open>args\<close> and the \<open>type\<close> attribute of the \<open>FuncDecl\<close>.\<close>

definition parse_function :: "node list option \<Rightarrow> ctype \<Rightarrow> error + Function" where
  "parse_function args rt =
     (case (case args of
              Some as \<Rightarrow> parse_params as [] False False
            | None \<Rightarrow> Inr ([], False, False)) of
        Inl e \<Rightarrow> Inl e
      | Inr (ps, variadic, has_void) \<Rightarrow>
          Inr \<lparr>ret_type = (if is_void (Ty rt) then None else Some rt),
               params = (if ps = [] \<and> \<not> has_void \<and> \<not> variadic then None else Some ps),
               is_variadic = variadic\<rparr>)"

section \<open>Struct layout engine\<close>

text \<open>
  An operation of the engine reads and updates the type map in place and either returns
  or raises; the type map as it stands afterwards is part of the result in both cases.
  \<open>None\<close> is "no result": the loop of \<open>resolve_typedefs\<close> does not end, or the nesting of
  aggregates and arrays is deeper than the bound the functions take as first argument.
\<close>

type_synonym 'a outcome = "((error + 'a) \<times> TypeMap) option"

text \<open>Python's \<open>str()\<close> of an optional name, as the f-strings render it.\<close>

definition py_str :: "string option \<Rightarrow> string" where
  "py_str n = (case n of None \<Rightarrow> ''None'' | Some s \<Rightarrow> s)"

text \<open>The truth value of \<open>struct.name\<close>: \<open>None\<close> and the empty string are false.\<close>

definition name_given :: "string option \<Rightarrow> bool" where
  "name_given n = (case n of None \<Rightarrow> False | Some s \<Rightarrow> s \<noteq> [])"

definition get_struct :: "su \<Rightarrow> TypeMap \<Rightarrow> Struct option" where
  "get_struct s tm =
     (if name_given (su_name s) then named_structs tm (the (su_name s))
      else anon_structs tm (su_id s))"

text \<open>The two assignments that end \<open>parse_struct\<close>.\<close>

definition put_struct :: "su \<Rightarrow> Struct \<Rightarrow> TypeMap \<Rightarrow> TypeMap" where
  "put_struct s ret tm =
     (if name_given (su_name s)
      then tm\<lparr>named_structs := (named_structs tm)(the (su_name s) \<mapsto> ret)\<rparr>
      else tm\<lparr>anon_structs := (anon_structs tm)(su_id s \<mapsto> ret)\<rparr>)"

subsection \<open>The running state of \<open>do_parse_struct\<close>\<close>

record layout =
  lfields :: "(int \<times> StructField list) list"
  union_size :: int
  align :: int
  offset :: int
  bit_offset :: int

definition init_layout :: layout where
  "init_layout = \<lparr>lfields = [], union_size = 0, align = 1, offset = 0, bit_offset = 0\<rparr>"

text \<open>\<open>fields[k].append(f)\<close> on the \<open>defaultdict\<close>: a new key goes to the end.\<close>

fun fields_append :: "int \<Rightarrow> StructField \<Rightarrow> (int \<times> StructField list) list \<Rightarrow> (int \<times> StructField list) list" where
  "fields_append k f [] = [(k, [f])]"
| "fields_append k f ((k', l) # r) =
     (if k = k' then (k', l @ [f]) # r else (k', l) # fields_append k f r)"

text \<open>Reading the dictionary: the list stored under an offset, empty when there is none.\<close>

definition fields_at :: "(int \<times> StructField list) list \<Rightarrow> int \<Rightarrow> StructField list" where
  "fields_at fs k = (case map_of fs k of None \<Rightarrow> [] | Some l \<Rightarrow> l)"

text \<open>
  The nested loops \<open>for off, sfields in substr.fields.items(): for field in sfields:
  fields[offset + off].append(g(field))\<close>.
\<close>

fun merge_fields :: "(StructField \<Rightarrow> StructField) \<Rightarrow> int \<Rightarrow> (int \<times> StructField list) list \<Rightarrow> (int \<times> StructField list) list \<Rightarrow> (int \<times> StructField list) list" where
  "merge_fields g base [] fs = fs"
| "merge_fields g base ((off, sfields) # r) fs =
     merge_fields g base r (foldl (\<lambda>acc field. fields_append (base + off) (g field) acc) fs sfields)"

text \<open>\<open>if not is_union and bit_offset != 0: bit_offset = 0; offset += 1\<close>\<close>

definition flush_bits :: "bool \<Rightarrow> layout \<Rightarrow> layout" where
  "flush_bits u st =
     (if \<not> u \<and> bit_offset st \<noteq> 0 then st\<lparr>bit_offset := 0, offset := offset st + 1\<rparr> else st)"

text \<open>The allocation of a bitfield of non-zero width (source lines 303 to 311).\<close>

definition place_bitfield :: "bool \<Rightarrow> int \<Rightarrow> int \<Rightarrow> layout \<Rightarrow> layout" where
  "place_bitfield u width ssize st =
     (if u then st\<lparr>union_size := max (union_size st) ssize\<rparr>
      else
        let st1 = (if offset st div ssize \<noteq> (offset st + (bit_offset st + width - 1) div 8) div ssize
                   then st\<lparr>bit_offset := 0, offset := (offset st + ssize) AND (- ssize)\<rparr>
                   else st);
            b = bit_offset st1 + width
        in st1\<lparr>offset := offset st1 + b div 8, bit_offset := b AND 7\<rparr>)"

text \<open>A named member that is not a bitfield (source lines 319 to 334).\<close>

definition place_named :: "bool \<Rightarrow> string \<Rightarrow> ctype \<Rightarrow> int \<Rightarrow> int \<Rightarrow> Struct option \<Rightarrow> layout \<Rightarrow> layout" where
  "place_named u m t ssize salign substr st =
     (let al = max (align st) salign;
          off = (offset st + salign - 1) AND (- salign);
          fs1 = fields_append off \<lparr>ftype = t, fname = m\<rparr> (lfields st);
          fs2 = (case substr of
                   None \<Rightarrow> fs1
                 | Some sub \<Rightarrow>
                     merge_fields (\<lambda>field. \<lparr>ftype = ftype field, fname = m @ ''.'' @ fname field\<rparr>)
                       off (struct_fields sub) fs1)
      in if u then st\<lparr>lfields := fs2, union_size := max (union_size st) ssize, align := al, offset := off\<rparr>
         else st\<lparr>lfields := fs2, align := al, offset := off + ssize\<rparr>)"

text \<open>An anonymous, untagged struct or union member (source lines 344 to 352).\<close>

definition place_anon :: "bool \<Rightarrow> Struct \<Rightarrow> layout \<Rightarrow> layout" where
  "place_anon u substr st =
     (let al = max (align st) (struct_align substr);
          off = (offset st + struct_align substr - 1) AND (- struct_align substr);
          fs = merge_fields (\<lambda>field. field) off (struct_fields substr) (lfields st)
      in if u then st\<lparr>lfields := fs, union_size := max (union_size st) (struct_size substr), align := al, offset := off\<rparr>
         else st\<lparr>lfields := fs, align := al, offset := off + struct_size substr\<rparr>)"

text \<open>The lines after the loop (source lines 354 to 359).\<close>

definition finish_struct :: "bool \<Rightarrow> layout \<Rightarrow> Struct" where
  "finish_struct u st =
     (let st1 = flush_bits u st
      in \<lparr>struct_fields = lfields st1,
          struct_size = (if u then union_size st1
                         else (offset st1 + align st1 - 1) AND (- align st1)),
          struct_align = align st1\<rparr>)"

subsection \<open>\<open>parse_struct\<close>, \<open>parse_struct_member\<close>, \<open>do_parse_struct\<close>\<close>

text \<open>
  \<open>struct_loop\<close> is the \<open>for decl in struct.decls\<close> loop of \<open>do_parse_struct\<close>; its
  arguments are \<open>is_union\<close>, \<open>struct.name\<close>, the declarations still to come and the
  running state. The depth bound goes down by one where \<open>parse_struct\<close> enters
  \<open>do_parse_struct\<close> and where \<open>parse_struct_member\<close> steps into an array's element type.
\<close>

fun parse_struct :: "nat \<Rightarrow> su \<Rightarrow> TypeMap \<Rightarrow> Struct outcome"
and parse_struct_member :: "nat \<Rightarrow> ctype \<Rightarrow> string \<Rightarrow> TypeMap \<Rightarrow> (int \<times> int \<times> Struct option) outcome"
and do_parse_struct :: "nat \<Rightarrow> su \<Rightarrow> TypeMap \<Rightarrow> Struct outcome"
and struct_loop :: "nat \<Rightarrow> bool \<Rightarrow> string option \<Rightarrow> node list \<Rightarrow> layout \<Rightarrow> TypeMap \<Rightarrow> layout outcome"
where
  "parse_struct d s tm =
     (case get_struct s tm of
        Some existing \<Rightarrow> Some (Inr existing, tm)
      | None \<Rightarrow>
          (case su_decls s of
             None \<Rightarrow> Some (Inl (DecompFailure (UndefinedStruct (su_name s))), tm)
           | Some ds \<Rightarrow>
               (case d of
                  0 \<Rightarrow> None
                | Suc d' \<Rightarrow>
                    (case do_parse_struct d' s tm of
                       None \<Rightarrow> None
                     | Some (Inl e, tm') \<Rightarrow> Some (Inl e, tm')
                     | Some (Inr ret, tm') \<Rightarrow> Some (Inr ret, put_struct s ret tm')))))"
| "parse_struct_member d t field_name tm =
     (case resolve_typedefs t tm of
        None \<Rightarrow> None
      | Some (PtrDecl t') \<Rightarrow> Some (Inr (4, 4, None), tm)
      | Some (ArrayDecl elem None) \<Rightarrow>
          Some (Inl (DecompFailure (ArrayWithoutSize field_name)), tm)
      | Some (ArrayDecl elem (Some dim_expr)) \<Rightarrow>
          (case parse_constant_int dim_expr of
             Inl e \<Rightarrow> Some (Inl e, tm)
           | Inr dim \<Rightarrow>
               (case d of
                  0 \<Rightarrow> None
                | Suc d' \<Rightarrow>
                    (case parse_struct_member d' elem field_name tm of
                       None \<Rightarrow> None
                     | Some (Inl e, tm') \<Rightarrow> Some (Inl e, tm')
                     | Some (Inr (esize, ealign, sub), tm') \<Rightarrow> Some (Inr (esize * dim, ealign, None), tm'))))
      | Some (FuncDecl args r) \<Rightarrow> Some (Inl AssertionError, tm)
      | Some (TypeDecl dn (StructUnion s)) \<Rightarrow>
          (case parse_struct d s tm of
             None \<Rightarrow> None
           | Some (Inl e, tm') \<Rightarrow> Some (Inl e, tm')
           | Some (Inr substr, tm') \<Rightarrow>
               Some (Inr (struct_size substr, struct_align substr, Some substr), tm'))
      | Some (TypeDecl dn inner_type) \<Rightarrow>
          (case primitive_size inner_type of
             Inl e \<Rightarrow> Some (Inl e, tm)
           | Inr psize \<Rightarrow> Some (Inr (psize, psize, None), tm)))"
| "do_parse_struct d s tm =
     (case su_decls s of
        None \<Rightarrow> Some (Inl AssertionError, tm)
      | Some [] \<Rightarrow> Some (Inl AssertionError, tm)
      | Some (x # xs) \<Rightarrow>
          (case struct_loop d (is_union s) (su_name s) (x # xs) init_layout tm of
             None \<Rightarrow> None
           | Some (Inl e, tm') \<Rightarrow> Some (Inl e, tm')
           | Some (Inr st, tm') \<Rightarrow> Some (Inr (finish_struct (is_union s) st), tm')))"
| "struct_loop d u sname [] st tm = Some (Inr st, tm)"
| "struct_loop d u sname (ca_Decl name ty (Some bitsize) # ds) st tm =
     (case parse_constant_int bitsize of
        Inl e \<Rightarrow> Some (Inl e, tm)
      | Inr width \<Rightarrow>
          (case ty of
             Bare i \<Rightarrow> Some (Inl AttributeError, tm)
           | Ty t \<Rightarrow>
               (case parse_struct_member d t (py_str sname @ ''.'' @ py_str name) tm of
                  None \<Rightarrow> None
                | Some (Inl e, tm') \<Rightarrow> Some (Inl e, tm')
                | Some (Inr (ssize, salign, substr), tm') \<Rightarrow>
                    (let st1 = st\<lparr>align := max (align st) salign\<rparr>
                     in if width = 0 then struct_loop d u sname ds st1 tm'
                        else if ssize \<noteq> salign \<or> substr \<noteq> None then
                          Some (Inl (DecompFailure (BitfieldNotPrimitive (py_str sname @ ''.'' @ py_str name))), tm')
                        else if width > ssize * 8 then
                          Some (Inl (DecompFailure (BitfieldTooWide (py_str sname @ ''.'' @ py_str name))), tm')
                        else if \<not> u \<and> ssize = 0 then Some (Inl ZeroDivisionError, tm')
                        else struct_loop d u sname ds (place_bitfield u width ssize st1) tm'))))"
| "struct_loop d u sname (ca_Decl (Some m) ty None # ds) st tm =
     (case ty of
        Bare i \<Rightarrow> Some (Inl AttributeError, tm)
      | Ty t \<Rightarrow>
          (case parse_struct_member d t (py_str sname @ ''.'' @ m) tm of
             None \<Rightarrow> None
           | Some (Inl e, tm') \<Rightarrow> Some (Inl e, tm')
           | Some (Inr (ssize, salign, substr), tm') \<Rightarrow>
               struct_loop d u sname ds
                 (place_named u m t ssize salign substr (flush_bits u st)) tm'))"
| "struct_loop d u sname (ca_Decl None ty None # ds) st tm =
     (case ty of
        Bare (StructUnion s) \<Rightarrow>
          (if su_decls s \<noteq> None then
             (case parse_struct d s tm of
                None \<Rightarrow> None
              | Some (Inl e, tm') \<Rightarrow> Some (Inl e, tm')
              | Some (Inr substr, tm') \<Rightarrow>
                  (if su_name s \<noteq> None then struct_loop d u sname ds (flush_bits u st) tm'
                   else struct_loop d u sname ds (place_anon u substr (flush_bits u st)) tm'))
           else struct_loop d u sname ds (flush_bits u st) tm)
      | _ \<Rightarrow> struct_loop d u sname ds (flush_bits u st) tm)"
| "struct_loop d u sname (x # ds) st tm = struct_loop d u sname ds st tm"

section \<open>Comment stripping\<close>

text \<open>
  \<open>strip_comments\<close> is \<open>re.sub(pattern, replacer, text)\<close> with the pattern
  \<^verbatim>\<open>//.*?$|/\*.*?\*/|'(?:\\.|[^\\'])*'|"(?:\\.|[^\\"])*"\<close> under \<open>DOTALL | MULTILINE\<close>.
  Each alternative is a function from the text at the current position to the matched
  text and the rest, \<open>None\<close> when it does not match there.
\<close>

definition newline :: char where
  "newline = CHR 0x0A"

definition backslash :: char where
  "backslash = CHR 0x5C"

text \<open>
  \<^verbatim>\<open>//.*?$\<close>: the lazy \<open>.*?\<close> stops at the first position where \<open>$\<close> holds, which is
  in front of the next newline or at the end of the text.
\<close>

definition match_line_comment :: "string \<Rightarrow> (string \<times> string) option" where
  "match_line_comment s =
     (case s of
        c1 # c2 # r \<Rightarrow>
          if c1 = CHR ''/'' \<and> c2 = CHR ''/''
          then Some (c1 # c2 # takeWhile (\<lambda>c. c \<noteq> newline) r, dropWhile (\<lambda>c. c \<noteq> newline) r)
          else None
      | _ \<Rightarrow> None)"

text \<open>\<^verbatim>\<open>.*?\*/\<close>: the shortest text that ends with the first \<open>*/\<close>.\<close>

fun find_close :: "string \<Rightarrow> (string \<times> string) option" where
  "find_close (a # b # r) =
     (if a = CHR ''*'' \<and> b = CHR ''/'' then Some ([a, b], r)
      else map_option (\<lambda>(m, rest). (a # m, rest)) (find_close (b # r)))"
| "find_close r = None"

definition match_block_comment :: "string \<Rightarrow> (string \<times> string) option" where
  "match_block_comment s =
     (case s of
        c1 # c2 # r \<Rightarrow>
          if c1 = CHR ''/'' \<and> c2 = CHR ''*''
          then map_option (\<lambda>(m, rest). (c1 # c2 # m, rest)) (find_close r)
          else None
      | _ \<Rightarrow> None)"

text \<open>
  \<^verbatim>\<open>(?:\\.|[^\\q])*q\<close> after the opening quote \<open>q\<close>: a backslash takes the next character
  with it, any other character but the quote is taken alone, the first quote met this way
  closes. The two branches of the group start with different characters, so backtracking
  finds no other match.
\<close>

fun quoted_body :: "char \<Rightarrow> string \<Rightarrow> (string \<times> string) option" where
  "quoted_body q [] = None"
| "quoted_body q (c # r) =
     (if c = backslash then
        (case r of
           [] \<Rightarrow> None
         | e # r' \<Rightarrow> map_option (\<lambda>(m, rest). (c # e # m, rest)) (quoted_body q r'))
      else if c = q then Some ([c], r)
      else map_option (\<lambda>(m, rest). (c # m, rest)) (quoted_body q r))"

definition match_quoted :: "char \<Rightarrow> string \<Rightarrow> (string \<times> string) option" where
  "match_quoted q s =
     (case s of
        c # r \<Rightarrow> if c = q then map_option (\<lambda>(m, rest). (c # m, rest)) (quoted_body q r) else None
      | [] \<Rightarrow> None)"

text \<open>The alternation tries its branches from left to right.\<close>

definition match_pattern :: "string \<Rightarrow> (string \<times> string) option" where
  "match_pattern s =
     (case match_line_comment s of
        Some x \<Rightarrow> Some x
      | None \<Rightarrow>
          (case match_block_comment s of
             Some x \<Rightarrow> Some x
           | None \<Rightarrow>
               (case match_quoted (CHR 0x27) s of
                  Some x \<Rightarrow> Some x
                | None \<Rightarrow> match_quoted (CHR 0x22) s)))"

definition replacer :: "string \<Rightarrow> string" where
  "replacer s =
     (if take 1 s = ''/'' then CHR '' '' # replicate (count_list s newline) newline else s)"

text \<open>
  The matched text has at least two characters; \<open>sub_from k\<close> passes over the \<open>k\<close>
  characters of the current match that are still ahead, then looks for the next match,
  copying the characters at which none starts.
\<close>

fun sub_from :: "nat \<Rightarrow> string \<Rightarrow> string" where
  "sub_from k [] = []"
| "sub_from (Suc k) (c # cs) = sub_from k cs"
| "sub_from 0 (c # cs) =
     (case match_pattern (c # cs) of
        Some (m, rest) \<Rightarrow> replacer m @ sub_from (length m - 1) cs
      | None \<Rightarrow> c # sub_from 0 cs)"

definition strip_comments :: "string \<Rightarrow> string" where
  "strip_comments text = sub_from 0 text"

section \<open>Type-map builder\<close>

text \<open>
  \<open>build_typemap\<close> after the parser has returned: the argument is \<open>ast.ext\<close>. The first
  loop records typedefs and function signatures.
\<close>

fun collect_item :: "node \<Rightarrow> TypeMap \<Rightarrow> error + TypeMap" where
  "collect_item (ca_Typedef n t) tm = Inr (tm\<lparr>typedefs := (typedefs tm)(n \<mapsto> t)\<rparr>)"
| "collect_item (ca_FuncDef None ty) tm = Inl AssertionError"
| "collect_item (ca_FuncDef (Some n) (Ty (FuncDecl args rt))) tm =
     (case parse_function args rt of
        Inl e \<Rightarrow> Inl e
      | Inr f \<Rightarrow> Inr (tm\<lparr>functions := (functions tm)(n \<mapsto> f)\<rparr>))"
| "collect_item (ca_FuncDef (Some n) ty) tm = Inl AssertionError"
| "collect_item (ca_Decl None (Ty (FuncDecl args rt)) b) tm = Inl AssertionError"
| "collect_item (ca_Decl (Some n) (Ty (FuncDecl args rt)) b) tm =
     (case parse_function args rt of
        Inl e \<Rightarrow> Inl e
      | Inr f \<Rightarrow> Inr (tm\<lparr>functions := (functions tm)(n \<mapsto> f)\<rparr>))"
| "collect_item item tm = Inr tm"

fun collect_items :: "node list \<Rightarrow> TypeMap \<Rightarrow> error + TypeMap" where
  "collect_items [] tm = Inr tm"
| "collect_items (item # items) tm =
     (case collect_item item tm of
        Inl e \<Rightarrow> Inl e
      | Inr tm' \<Rightarrow> collect_items items tm')"

text \<open>
  The \<open>Visitor\<close>: \<open>visit_Struct\<close>, \<open>visit_Union\<close>, \<open>visit_Decl\<close>, \<open>visit_Enum\<close> and
  \<open>visit_FuncDef\<close> as in the source, \<open>generic_visit\<close> (the children in pycparser's order)
  for every other node. The five methods do not call \<open>generic_visit\<close>, so the traversal
  stops at a struct, a union, an enum and a function definition. A node of a class not
  listed here is taken to have no children.
\<close>

fun visit_ctype :: "nat \<Rightarrow> ctype \<Rightarrow> TypeMap \<Rightarrow> unit outcome"
and visit_inner :: "nat \<Rightarrow> inner \<Rightarrow> TypeMap \<Rightarrow> unit outcome"
and visit_node :: "nat \<Rightarrow> node \<Rightarrow> TypeMap \<Rightarrow> unit outcome"
and visit_nodes :: "nat \<Rightarrow> node list \<Rightarrow> TypeMap \<Rightarrow> unit outcome"
where
  "visit_ctype d (PtrDecl t) tm = visit_ctype d t tm"
| "visit_ctype d (ArrayDecl t dim) tm = visit_ctype d t tm"
| "visit_ctype d (TypeDecl dn i) tm = visit_inner d i tm"
| "visit_ctype d (FuncDecl None t) tm = visit_ctype d t tm"
| "visit_ctype d (FuncDecl (Some as) t) tm =
     (case visit_nodes d as tm of
        None \<Rightarrow> None
      | Some (Inl e, tm') \<Rightarrow> Some (Inl e, tm')
      | Some (Inr u, tm') \<Rightarrow> visit_ctype d t tm')"
| "visit_inner d (IdentifierType names) tm = Some (Inr (), tm)"
| "visit_inner d (ca_Enum None) tm = Some (Inr (), tm)"
| "visit_inner d (ca_Enum (Some n)) tm =
     Some (Inr (), tm\<lparr>typedefs := (typedefs tm)(n \<mapsto> basic_type [''int''])\<rparr>)"
| "visit_inner d (StructUnion s) tm =
     (if su_decls s \<noteq> None then
        (case parse_struct d s tm of
           None \<Rightarrow> None
         | Some (Inl e, tm') \<Rightarrow> Some (Inl e, tm')
         | Some (Inr ret, tm') \<Rightarrow> Some (Inr (), tm'))
      else Some (Inr (), tm))"
| "visit_node d (ca_Decl name ty b) tm =
     (let tm1 = (case name of
                   None \<Rightarrow> tm
                 | Some n \<Rightarrow> tm\<lparr>var_types := (var_types tm)(n \<mapsto> ty)\<rparr>)
      in case ty of
           Ty (FuncDecl args rt) \<Rightarrow> Some (Inr (), tm1)
         | Ty t \<Rightarrow> visit_ctype d t tm1
         | Bare i \<Rightarrow> visit_inner d i tm1)"
| "visit_node d (ca_Typename t) tm = visit_ctype d t tm"
| "visit_node d (ca_Typedef n t) tm = visit_ctype d t tm"
| "visit_node d (ca_FuncDef None ty) tm = Some (Inr (), tm)"
| "visit_node d (ca_FuncDef (Some n) ty) tm =
     Some (Inr (), tm\<lparr>var_types := (var_types tm)(n \<mapsto> ty)\<rparr>)"
| "visit_node d ca_EllipsisParam tm = Some (Inr (), tm)"
| "visit_node d (ca_ID n) tm = Some (Inr (), tm)"
| "visit_node d OtherNode tm = Some (Inr (), tm)"
| "visit_nodes d [] tm = Some (Inr (), tm)"
| "visit_nodes d (x # xs) tm =
     (case visit_node d x tm of
        None \<Rightarrow> None
      | Some (Inl e, tm') \<Rightarrow> Some (Inl e, tm')
      | Some (Inr u, tm') \<Rightarrow> visit_nodes d xs tm')"

definition build_typemap :: "nat \<Rightarrow> node list \<Rightarrow> (error + TypeMap) option" where
  "build_typemap d ext =
     (case collect_items ext empty_typemap of
        Inl e \<Rightarrow> Some (Inl e)
      | Inr tm \<Rightarrow>
          (case visit_nodes d ext tm of
             None \<Rightarrow> None
           | Some (Inl e, tm') \<Rightarrow> Some (Inl e)
           | Some (Inr u, tm') \<Rightarrow> Some (Inr tm')))"

section \<open>Inputs of the scenarios\<close>

text \<open>The value an operation returned, when it returned one.\<close>

definition returned :: "'a outcome \<Rightarrow> 'a option" where
  "returned r = (case r of Some (Inr x, tm) \<Rightarrow> Some x | _ \<Rightarrow> None)"

definition int_type :: ctype where
  "int_type = TypeDecl None (IdentifierType [''int''])"

definition void_type :: ctype where
  "void_type = TypeDecl None (IdentifierType [''void''])"

text \<open>\<^verbatim>\<open>struct B2 { unsigned a : 4; unsigned : 0; unsigned b : 4; };\<close>\<close>

definition struct_B2 :: su where
  "struct_B2 = ca_Struct 0 (Some ''B2'')
     (Some [ca_Decl (Some ''a'') (Ty (TypeDecl (Some ''a'') (IdentifierType [''unsigned''])))
              (Some (ca_Constant ''4'')),
            ca_Decl None (Ty (TypeDecl None (IdentifierType [''unsigned''])))
              (Some (ca_Constant ''0'')),
            ca_Decl (Some ''b'') (Ty (TypeDecl (Some ''b'') (IdentifierType [''unsigned''])))
              (Some (ca_Constant ''4''))])"

text \<open>\<^verbatim>\<open>struct S { int a[]; };\<close>\<close>

definition struct_unsized :: su where
  "struct_unsized = ca_Struct 1 (Some ''S'')
     (Some [ca_Decl (Some ''a'') (Ty (ArrayDecl (TypeDecl (Some ''a'') (IdentifierType [''int''])) None)) None])"


section \<open>Evaluation lemmas\<close>

lemma resolve_typedefs_simps:
  "resolve_typedefs (PtrDecl t) tm = Some (PtrDecl t)"
  "resolve_typedefs (ArrayDecl t dm) tm = Some (ArrayDecl t dm)"
  "resolve_typedefs (FuncDecl fa t) tm = Some (FuncDecl fa t)"
  "resolve_typedefs (TypeDecl dn (ca_Enum en)) tm = Some (TypeDecl dn (ca_Enum en))"
  "resolve_typedefs (TypeDecl dn (StructUnion s)) tm = Some (TypeDecl dn (StructUnion s))"
  "resolve_typedefs (TypeDecl dn (IdentifierType [])) tm = Some (TypeDecl dn (IdentifierType []))"
  "resolve_typedefs (TypeDecl dn (IdentifierType (n1 # n2 # ns))) tm =
     Some (TypeDecl dn (IdentifierType (n1 # n2 # ns)))"
  "resolve_typedefs (TypeDecl dn (IdentifierType [n])) tm =
     (case typedefs tm n of
        Some t' \<Rightarrow> resolve_typedefs t' tm
      | None \<Rightarrow> Some (TypeDecl dn (IdentifierType [n])))"
  by (subst resolve_typedefs.simps, simp)+

lemmas py_int_defs = py_int_base0_def rstrip_def py_isspace_def digit_value_def

lemmas layout_defs = init_layout_def place_bitfield_def place_named_def place_anon_def
  finish_struct_def flush_bits_def py_str_def Let_def

lemma struct_B2_layout:
  "do_parse_struct d struct_B2 empty_typemap =
     Some (Inr \<lparr>struct_fields = [], struct_size = 4, struct_align = 4\<rparr>, empty_typemap)"
  by (simp add: struct_B2_def resolve_typedefs_simps empty_typemap_def py_int_defs layout_defs)

section \<open>Zero-width bitfields (C1)\<close>

text \<open>
  C1, as stated: for \<open>struct B2\<close> the layout engine returns size 8 and align 4. The code
  returns size 4: at a zero-width bitfield the loop only raises the alignment and goes on
  to the next declaration, so \<open>bit_offset\<close> still stands at 4 when \<open>b\<close> is allocated and
  \<open>b\<close> lands in the unit of \<open>a\<close>.
\<close>

theorem zero_width_bitfield_size_not_8:
  "map_option struct_size (returned (do_parse_struct 1 struct_B2 empty_typemap)) \<noteq> Some 8"
  by (simp only: struct_B2_layout returned_def) simp

text \<open>
  C1, amended: for \<open>struct B2\<close>, in the type map of an empty context and at every depth
  bound, \<open>do_parse_struct\<close> returns a \<open>Struct\<close> with size 4, align 4 and no field entry,
  and leaves the type map as it was.
\<close>

theorem zero_width_bitfield_layout:
  "do_parse_struct d struct_B2 empty_typemap =
     Some (Inr \<lparr>struct_fields = [], struct_size = 4, struct_align = 4\<rparr>, empty_typemap)"
  by (rule struct_B2_layout)

section \<open>Integer literals (C2)\<close>

text \<open>
  C2: \<open>parse_constant_int\<close> is to read \<open>010\<close> as the octal literal it is in C. Python's
  \<open>int(s, 0)\<close> refuses a non-zero text with a leading zero, and the function turns the
  \<open>ValueError\<close> into \<open>DecompFailure\<close>. Hexadecimal and decimal texts and the suffixes
  are read as the claim says.
\<close>

theorem octal_literal_rejected:
  "parse_constant_int (ca_Constant ''010'') =
     Inl (DecompFailure (BadIntLiteral (ca_Constant ''010'')))
   \<and> parse_constant_int (ca_Constant ''0x10UL'') = Inr 16
   \<and> parse_constant_int (ca_Constant ''10u'') = Inr 10"
  by (simp add: py_int_defs)

section \<open>Parameter lists (C3)\<close>

text \<open>
  C3: for every return type, \<open>f()\<close> (no \<open>args\<close>) gives \<open>params = None\<close>; \<open>f(void)\<close> gives
  the empty list, not variadic; \<open>f(int)\<close> gives the one-element list; \<open>f(int, ...)\<close>
  gives the same list with \<open>is_variadic\<close> set.
\<close>

theorem parse_function_param_lists:
  "parse_function None rt =
     Inr \<lparr>ret_type = (if is_void (Ty rt) then None else Some rt),
          params = None, is_variadic = False\<rparr>
   \<and> parse_function (Some [ca_Typename void_type]) rt =
     Inr \<lparr>ret_type = (if is_void (Ty rt) then None else Some rt),
          params = Some [], is_variadic = False\<rparr>
   \<and> parse_function (Some [ca_Typename int_type]) rt =
     Inr \<lparr>ret_type = (if is_void (Ty rt) then None else Some rt),
          params = Some [\<lparr>ptype = Ty int_type, pname = None\<rparr>], is_variadic = False\<rparr>
   \<and> parse_function (Some [ca_Typename int_type, ca_EllipsisParam]) rt =
     Inr \<lparr>ret_type = (if is_void (Ty rt) then None else Some rt),
          params = Some [\<lparr>ptype = Ty int_type, pname = None\<rparr>], is_variadic = True\<rparr>"
  by (simp add: parse_function_def int_type_def void_type_def)

section \<open>Pointer decay (C6)\<close>

lemma resolve_typedefs_stops:
  assumes "resolve_typedefs t tm = Some r"
  shows "typedef_target r tm = None"
  by (rule resolve_typedefs.raw_induct [where P = "\<lambda>t tm r. typedef_target r tm = None", OF _ assms])
     (auto split: option.splits)






section \<open>Incomplete structs (C8)\<close>

text \<open>
  C8, as stated: \<open>parse_struct\<close> raises \<open>DecompFailure\<close> exactly when the node has no
  \<open>decls\<close> and no cached layout. A node with \<open>decls\<close> raises it as well when the layout
  of a member fails: here an array member without a size.
\<close>

theorem parse_struct_raises_with_decls:
  "su_decls struct_unsized \<noteq> None
   \<and> parse_struct 1 struct_unsized empty_typemap =
       Some (Inl (DecompFailure (ArrayWithoutSize ''S.a'')), empty_typemap)"
  by (simp add: struct_unsized_def resolve_typedefs_simps empty_typemap_def get_struct_def
      name_given_def layout_defs)

text \<open>
  C8, amended: for a node without \<open>decls\<close>, \<open>parse_struct\<close> raises \<open>DecompFailure\<close>
  exactly when no layout of it is cached, and returns the cached layout otherwise; in
  both cases the type map, \<open>named_structs\<close> and \<open>anon_structs\<close> included, is left as it
  was.
\<close>

theorem parse_struct_incomplete:
  assumes "su_decls s = None"
  shows "parse_struct d s tm =
     (case get_struct s tm of
        None \<Rightarrow> Some (Inl (DecompFailure (UndefinedStruct (su_name s))), tm)
      | Some existing \<Rightarrow> Some (Inr existing, tm))"
  using assms by (simp split: option.splits)

text \<open>The witness: \<^verbatim>\<open>struct P\<close>, used and never defined, in an empty context.\<close>

theorem parse_struct_incomplete_witness:
  "su_decls (ca_Struct 2 (Some ''P'') None) = None
   \<and> parse_struct 0 (ca_Struct 2 (Some ''P'') None) empty_typemap =
       Some (Inl (DecompFailure (UndefinedStruct (Some ''P''))), empty_typemap)"
proof -
  have a: "su_decls (ca_Struct 2 (Some ''P'') None) = None" by simp
  have b: "get_struct (ca_Struct 2 (Some ''P'') None) empty_typemap = None"
    by (simp add: get_struct_def name_given_def empty_typemap_def)
  from parse_struct_incomplete [OF a, of 0 empty_typemap] a b show ?thesis by simp
qed

end
